theory Spec2Isabelle
  imports Main "HOL-Library.Word"
begin

section \<open>Strings of the source language\<close>

text \<open>
  A string of the source is a sequence of 16-bit code units. Literals of the source are
  ASCII; \<open>lit\<close> turns such a literal into its code units.
\<close>

type_synonym js_string = "16 word list"

definition lit :: "string \<Rightarrow> js_string" where
  "lit s = map (\<lambda>c. of_nat (of_char c)) s"

text \<open>
  \<^verbatim>\<open>String.prototype.trim\<close> removes, at both ends, the code units that are white space
  or line terminators: TAB, LF, VT, FF, CR, SP, NBSP, U+1680, U+2000..U+200A, U+2028,
  U+2029, U+202F, U+205F, U+3000 and U+FEFF.
\<close>

definition isWhiteSpace :: "16 word \<Rightarrow> bool" where
  "isWhiteSpace c =
     (c = 0x09 \<or> c = 0x0A \<or> c = 0x0B \<or> c = 0x0C \<or> c = 0x0D \<or> c = 0x20 \<or> c = 0xA0
      \<or> c = 0x1680 \<or> (0x2000 \<le> c \<and> c \<le> 0x200A) \<or> c = 0x2028 \<or> c = 0x2029
      \<or> c = 0x202F \<or> c = 0x205F \<or> c = 0x3000 \<or> c = 0xFEFF)"

definition trimStart :: "js_string \<Rightarrow> js_string" where
  "trimStart s = dropWhile isWhiteSpace s"

definition trimEnd :: "js_string \<Rightarrow> js_string" where
  "trimEnd s = rev (dropWhile isWhiteSpace (rev s))"

definition trim :: "js_string \<Rightarrow> js_string" where
  "trim s = trimEnd (trimStart s)"

section \<open>The collaborators of \<open>getRepo\<close>\<close>

text \<open>
  The file system (\<^verbatim>\<open>fs\<close>) and the version-control client (\<^verbatim>\<open>simple-git\<close>) are
  not part of the repository: they are a parameter of the model, a record of functions
  over a state of the outside world \<open>'w\<close>, failing with a cause of type \<open>'e\<close>.
  \<^item> \<open>existsSync\<close>, \<open>readdirSync\<close>: \<^verbatim>\<open>fs.existsSync(p)\<close>, \<^verbatim>\<open>fs.readdirSync(p)\<close>
    (the latter throws, for instance on a path that is a file);
  \<^item> \<open>listRemote p args\<close>: \<^verbatim>\<open>git(p).listRemote(args)\<close>;
  \<^item> \<open>git p\<close>: the construction \<^verbatim>\<open>git(p)\<close> of a handle bound to \<open>p\<close>, \<open>Some e\<close> when
    the client refuses the directory;
  \<^item> \<open>clone remote p opts\<close>: \<^verbatim>\<open>git().clone(remote, p, opts)\<close>;
  \<^item> \<open>fetch p opts\<close>, \<open>reset p opts\<close>: \<^verbatim>\<open>repo.fetch(opts)\<close>, \<^verbatim>\<open>repo.reset(opts)\<close> on
    the handle bound to \<open>p\<close>;
  \<^item> \<open>raw p args\<close>: \<^verbatim>\<open>repo.raw(args)\<close>.
  The first four and \<open>raw\<close> read the world; clone, fetch and reset change it, also when
  they fail.
\<close>

record ('w, 'e) client =
  existsSync :: "js_string \<Rightarrow> 'w \<Rightarrow> bool"
  readdirSync :: "js_string \<Rightarrow> 'w \<Rightarrow> 'e + js_string list"
  listRemote :: "js_string \<Rightarrow> js_string list \<Rightarrow> 'w \<Rightarrow> 'e + js_string"
  git :: "js_string \<Rightarrow> 'w \<Rightarrow> 'e option"
  clone :: "js_string \<Rightarrow> js_string \<Rightarrow> js_string list \<Rightarrow> 'w \<Rightarrow> 'e option \<times> 'w"
  fetch :: "js_string \<Rightarrow> js_string list \<Rightarrow> 'w \<Rightarrow> 'e option \<times> 'w"
  reset :: "js_string \<Rightarrow> js_string list \<Rightarrow> 'w \<Rightarrow> 'e option \<times> 'w"
  raw :: "js_string \<Rightarrow> js_string list \<Rightarrow> 'w \<Rightarrow> 'e + js_string"

text \<open>
  Every call to a collaborator is recorded, in the order the calls are made, with the
  cause of its failure if it failed.
\<close>

datatype call =
    ExistsSync js_string
  | ReaddirSync js_string
  | ListRemote js_string "js_string list"
  | Git js_string
  | Clone js_string js_string "js_string list"
  | Fetch js_string "js_string list"
  | Reset js_string "js_string list"

type_synonym 'e trace = "(call \<times> 'e option) list"

fun isMutating :: "call \<Rightarrow> bool" where
  "isMutating (Clone _ _ _) = True"
| "isMutating (Fetch _ _) = True"
| "isMutating (Reset _ _) = True"
| "isMutating _ = False"

fun isDetection :: "call \<Rightarrow> bool" where
  "isDetection (ExistsSync _) = True"
| "isDetection (ReaddirSync _) = True"
| "isDetection (ListRemote _ _) = True"
| "isDetection _ = False"

definition mutations :: "'e trace \<Rightarrow> call list" where
  "mutations t = filter isMutating (map fst t)"

text \<open>
  What a rejected promise carries: the cause of a collaborator's failure, or the
  \<^verbatim>\<open>Error\<close> that \<open>getRepo\<close> throws itself, with its message.
\<close>

datatype 'e failure = Rejected 'e | Error js_string

text \<open>The handle \<^verbatim>\<open>git(cachePath)\<close> that \<open>getRepo\<close> returns.\<close>

datatype repo = Repo js_string

section \<open>The source functions\<close>

text \<open>
  \<^verbatim>\<open>isAlreadyCloned(remote, repoPath)\<close>: the \<^verbatim>\<open>==\<close> of two strings is equality of
  their code units.
\<close>

definition isAlreadyCloned ::
  "('w, 'e) client \<Rightarrow> js_string \<Rightarrow> js_string \<Rightarrow> 'w \<Rightarrow> ('e + bool) \<times> 'e trace" where
  "isAlreadyCloned c remote repoPath w =
     (case listRemote c repoPath [lit ''--get-url''] w of
        Inl e \<Rightarrow> (Inl e, [(ListRemote repoPath [lit ''--get-url''], Some e)])
      | Inr existingRemote \<Rightarrow>
          (Inr (trim existingRemote = trim remote),
           [(ListRemote repoPath [lit ''--get-url''], None)]))"

text \<open>
  \<^verbatim>\<open>getTargetBranch(branch)\<close>. The argument is declared a string, but the option it comes
  from may be absent from the configuration, as the test \<^verbatim>\<open>typeof branch == `string`\<close> of
  \<open>getRepo\<close> provides for: \<open>None\<close> is the value \<^verbatim>\<open>undefined\<close>, which the template literal
  renders as the text \<^verbatim>\<open>undefined\<close>.
\<close>

definition template :: "js_string option \<Rightarrow> js_string" where
  "template v = (case v of Some s \<Rightarrow> s | None \<Rightarrow> lit ''undefined'')"

definition getTargetBranch :: "js_string option \<Rightarrow> js_string" where
  "getTargetBranch branch = lit ''origin/'' @ template branch"

text \<open>
  The test of line 57, \<^verbatim>\<open>!fs.existsSync(cachePath) || fs.readdirSync(cachePath).length === 0\<close>:
  the directory is read only when it exists.
\<close>

definition missingOrEmpty ::
  "('w, 'e) client \<Rightarrow> js_string \<Rightarrow> 'w \<Rightarrow> ('e + bool) \<times> 'e trace" where
  "missingOrEmpty c cachePath w =
     (if \<not> existsSync c cachePath w then (Inr True, [(ExistsSync cachePath, None)])
      else case readdirSync c cachePath w of
             Inl e \<Rightarrow> (Inl e, [(ExistsSync cachePath, None), (ReaddirSync cachePath, Some e)])
           | Inr entries \<Rightarrow>
               (Inr (length entries = 0),
                [(ExistsSync cachePath, None), (ReaddirSync cachePath, None)]))"

text \<open>The options of the clone, lines 58 to 61.\<close>

definition cloneOpts :: "js_string option \<Rightarrow> js_string list" where
  "cloneOpts branch =
     [lit ''--depth'', lit ''1''] @
     (case branch of Some b \<Rightarrow> [lit ''--branch'', b] | None \<Rightarrow> [])"

text \<open>
  \<^verbatim>\<open>getRepo(cachePath, remote, branch)\<close>: the outcome, the calls made, and the world
  they leave.
\<close>

definition getRepo ::
  "('w, 'e) client \<Rightarrow> js_string \<Rightarrow> js_string \<Rightarrow> js_string option \<Rightarrow> 'w \<Rightarrow>
     ('e failure + repo) \<times> 'e trace \<times> 'w" where
  "getRepo c cachePath remote branch w =
     (case missingOrEmpty c cachePath w of
        (Inl e, t) \<Rightarrow> (Inl (Rejected e), t, w)
      | (Inr True, t) \<Rightarrow>
          (let opts = cloneOpts branch in
           case clone c remote cachePath opts w of
             (Some e, w') \<Rightarrow> (Inl (Rejected e), t @ [(Clone remote cachePath opts, Some e)], w')
           | (None, w') \<Rightarrow>
               (case git c cachePath w' of
                  Some e \<Rightarrow>
                    (Inl (Rejected e),
                     t @ [(Clone remote cachePath opts, None), (Git cachePath, Some e)], w')
                | None \<Rightarrow>
                    (Inr (Repo cachePath),
                     t @ [(Clone remote cachePath opts, None), (Git cachePath, None)], w')))
      | (Inr False, t) \<Rightarrow>
          (case isAlreadyCloned c remote cachePath w of
             (Inl e, t1) \<Rightarrow> (Inl (Rejected e), t @ t1, w)
           | (Inr True, t1) \<Rightarrow>
               (case git c cachePath w of
                  Some e \<Rightarrow> (Inl (Rejected e), t @ t1 @ [(Git cachePath, Some e)], w)
                | None \<Rightarrow>
                    (let target = getTargetBranch branch;
                         fopts = [lit ''--depth'', lit ''1''];
                         ropts = [lit ''--hard'', target] in
                     case fetch c cachePath fopts w of
                       (Some e, w1) \<Rightarrow>
                         (Inl (Rejected e),
                          t @ t1 @ [(Git cachePath, None), (Fetch cachePath fopts, Some e)], w1)
                     | (None, w1) \<Rightarrow>
                         (case reset c cachePath ropts w1 of
                            (Some e, w2) \<Rightarrow>
                              (Inl (Rejected e),
                               t @ t1 @ [(Git cachePath, None), (Fetch cachePath fopts, None),
                                         (Reset cachePath ropts, Some e)], w2)
                          | (None, w2) \<Rightarrow>
                              (Inr (Repo cachePath),
                               t @ t1 @ [(Git cachePath, None), (Fetch cachePath fopts, None),
                                         (Reset cachePath ropts, None)], w2))))
           | (Inr False, t1) \<Rightarrow>
               (Inl (Error (lit ''Can't clone to target destination: '' @ cachePath)),
                t @ t1, w)))"

section \<open>The lifecycle hook\<close>

text \<open>
  The nodes handed to \<^verbatim>\<open>createNode\<close>: the node of the remote (its id, the name of the
  source, the serialised and digested parsed URL, and the parsed URL itself), and a file
  node with its link \<^verbatim>\<open>gitRemote___NODE\<close>.
\<close>

datatype ('u, 'f) node =
    GitRemote js_string js_string js_string js_string 'u
  | FileNode 'f js_string

text \<open>
  The host and the remaining libraries, again a parameter: \<open>directory\<close> is
  \<^verbatim>\<open>store.getState().program.directory\<close>, \<open>join\<close> is \<^verbatim>\<open>path.join\<close>, \<open>setRef u ref\<close> is
  the parsed URL \<open>u\<close> without its \<^verbatim>\<open>git_suffix\<close> and with \<^verbatim>\<open>ref\<close> set, \<open>stringify\<close> is
  \<^verbatim>\<open>JSON.stringify\<close>, \<open>fastGlob patterns cwd\<close> lists the absolute paths that match,
  \<open>createFileNode path name localPath\<close> builds a file node, \<open>createNode\<close> accepts a node
  or throws, and \<open>toString\<close> is the text of a cause in a template literal.
\<close>

record ('w, 'e, 'u, 'f) host =
  directory :: js_string
  join :: "js_string list \<Rightarrow> js_string"
  gitUrlParse :: "js_string \<Rightarrow> 'e + 'u"
  setRef :: "'u \<Rightarrow> js_string \<Rightarrow> 'u"
  stringify :: "'u \<Rightarrow> js_string"
  fastGlob :: "js_string \<Rightarrow> js_string \<Rightarrow> 'w \<Rightarrow> 'e + js_string list"
  createNodeId :: "js_string \<Rightarrow> js_string"
  createContentDigest :: "'u \<Rightarrow> js_string"
  createFileNode :: "js_string \<Rightarrow> js_string \<Rightarrow> js_string \<Rightarrow> 'w \<Rightarrow> 'e + 'f"
  createNode :: "('u, 'f) node \<Rightarrow> 'e option"
  toString :: "'e \<Rightarrow> js_string"

text \<open>
  What the hook acts on: the outside world, the nodes created so far, and the messages
  given to \<^verbatim>\<open>reporter.error\<close>.
\<close>

record ('w, 'u, 'f) build =
  world :: 'w
  created :: "('u, 'f) node list"
  reported :: "js_string list"

text \<open>
  \<^verbatim>\<open>local || path.join(programDir, `.cache`, `gatsby-source-git-as-filesystem`, name)\<close>:
  an absent and an empty \<^verbatim>\<open>local\<close> are both falsy.
\<close>

definition localPath ::
  "('w, 'e, 'u, 'f) host \<Rightarrow> js_string \<Rightarrow> js_string option \<Rightarrow> js_string" where
  "localPath h name local =
     (let programDir = directory h;
          dflt = join h [programDir, lit ''.cache'', lit ''gatsby-source-git-as-filesystem'', name]
      in case local of None \<Rightarrow> dflt | Some l \<Rightarrow> if l = [] then dflt else l)"

text \<open>The text \<^verbatim>\<open>`${e}`\<close> of what \<open>getRepo\<close> rejected with.\<close>

definition failureText :: "('w, 'e, 'u, 'f) host \<Rightarrow> 'e failure \<Rightarrow> js_string" where
  "failureText h f = (case f of Rejected e \<Rightarrow> toString h e | Error m \<Rightarrow> lit ''Error: '' @ m)"

text \<open>The loop of lines 152 to 166 over the files found.\<close>

fun createFileNodes ::
  "('w, 'e, 'u, 'f) host \<Rightarrow> js_string \<Rightarrow> js_string \<Rightarrow> js_string \<Rightarrow> js_string list \<Rightarrow>
     ('w, 'u, 'f) build \<Rightarrow> ('e + unit) \<times> ('w, 'u, 'f) build" where
  "createFileNodes h name lp remoteId [] st = (Inr (), st)"
| "createFileNodes h name lp remoteId (filePath # rest) st =
     (case createFileNode h filePath name lp (world st) of
        Inl e \<Rightarrow> (Inl e, st)
      | Inr fileNode \<Rightarrow>
          (case createNode h (FileNode fileNode remoteId) of
             Some e \<Rightarrow> (Inl e, st)
           | None \<Rightarrow>
               createFileNodes h name lp remoteId rest
                 (st\<lparr>created := created st @ [FileNode fileNode remoteId]\<rparr>)))"

text \<open>
  \<^verbatim>\<open>sourceNodes\<close>, with the options \<open>name\<close>, \<open>remote\<close>, \<open>branch\<close>, \<open>patterns\<close> (\<^verbatim>\<open>**\<close>
  when absent) and \<open>local\<close>. \<open>Inl e\<close> is the promise rejected with \<open>e\<close>, \<open>Inr ()\<close> the
  promise resolved.
\<close>

definition sourceNodes ::
  "('w, 'e, 'u, 'f) host \<Rightarrow> ('w, 'e) client \<Rightarrow> js_string \<Rightarrow> js_string \<Rightarrow>
     js_string option \<Rightarrow> js_string option \<Rightarrow> js_string option \<Rightarrow>
     ('w, 'u, 'f) build \<Rightarrow> ('e + unit) \<times> ('w, 'u, 'f) build" where
  "sourceNodes h c name remote branch patterns local st =
     (let pats = (case patterns of None \<Rightarrow> lit ''**'' | Some p \<Rightarrow> p);
          lp = localPath h name local in
      case gitUrlParse h remote of
        Inl e \<Rightarrow> (Inl e, st)
      | Inr parsedRemote \<Rightarrow>
          (case getRepo c lp remote branch (world st) of
             (Inl e, t, w') \<Rightarrow>
               (Inr (), st\<lparr>world := w', reported := reported st @ [failureText h e]\<rparr>)
           | (Inr (Repo base), t, w') \<Rightarrow>
               (case raw c base [lit ''rev-parse'', lit ''--abbrev-ref'', lit ''HEAD''] w' of
                  Inl e \<Rightarrow> (Inl e, st\<lparr>world := w'\<rparr>)
                | Inr ref \<Rightarrow>
                    (let parsed = setRef h parsedRemote (trim ref) in
                     case fastGlob h pats lp w' of
                       Inl e \<Rightarrow> (Inl e, st\<lparr>world := w'\<rparr>)
                     | Inr repoFiles \<Rightarrow>
                         (let remoteId = createNodeId h (lit ''git-remote-'' @ name);
                              node = GitRemote remoteId name (stringify h parsed)
                                       (createContentDigest h parsed) parsed in
                          case createNode h node of
                            Some e \<Rightarrow> (Inl e, st\<lparr>world := w'\<rparr>)
                          | None \<Rightarrow>
                              createFileNodes h name lp remoteId repoFiles
                                (st\<lparr>world := w', created := created st @ [node]\<rparr>))))))"

section \<open>The state the synchronisation aims at\<close>

text \<open>
  The directory exists, has entries, and the URL of its remote, as \<open>listRemote\<close> prints
  it, is the given one once both are trimmed.
\<close>

definition populatedMatching :: "('w, 'e) client \<Rightarrow> js_string \<Rightarrow> js_string \<Rightarrow> 'w \<Rightarrow> bool" where
  "populatedMatching c p r w =
     (existsSync c p w
      \<and> (case readdirSync c p w of Inl e \<Rightarrow> False | Inr es \<Rightarrow> es \<noteq> [])
      \<and> (case listRemote c p [lit ''--get-url''] w of
            Inl e \<Rightarrow> False | Inr u \<Rightarrow> trim u = trim r))"

section \<open>A small world to run the functions in\<close>

text \<open>
  One directory only: absent, or present with its entries and the URL of its remote.
  The client \<open>demoClient up\<close> clones, fetches and resets without failing when \<open>up\<close>
  holds and fails with cause 7 otherwise; \<open>listRemote\<close> prints the URL and a newline.
\<close>

datatype dir = NoDir | Dir "js_string list" js_string

definition demoClient :: "bool \<Rightarrow> (dir, nat) client" where
  "demoClient up =
     \<lparr> existsSync = (\<lambda>p w. w \<noteq> NoDir),
       readdirSync = (\<lambda>p w. case w of NoDir \<Rightarrow> Inl 2 | Dir es u \<Rightarrow> Inr es),
       listRemote = (\<lambda>p args w. case w of NoDir \<Rightarrow> Inl 128 | Dir es u \<Rightarrow> Inr (u @ [0x0A])),
       git = (\<lambda>p w. None),
       clone = (\<lambda>r p opts w. if up then (None, Dir [lit ''.git''] r) else (Some 7, w)),
       fetch = (\<lambda>p opts w. if up then (None, w) else (Some 7, w)),
       reset = (\<lambda>p opts w. if up then (None, w) else (Some 7, w)),
       raw = (\<lambda>p args w. Inr (lit ''main'' @ [0x0A])) \<rparr>"

definition demoHost :: "(dir, nat, js_string, js_string) host" where
  "demoHost =
     \<lparr> directory = lit ''/site'',
       join = (\<lambda>ps. concat (map (\<lambda>p. lit ''/'' @ p) ps)),
       gitUrlParse = (\<lambda>r. Inr r),
       setRef = (\<lambda>u ref. u),
       stringify = (\<lambda>u. u),
       fastGlob = (\<lambda>pats cwd w. Inr []),
       createNodeId = (\<lambda>s. s),
       createContentDigest = (\<lambda>u. u),
       createFileNode = (\<lambda>p n l w. Inr p),
       createNode = (\<lambda>n. None),
       toString = (\<lambda>e. lit ''GitError'') \<rparr>"

text \<open>
  The same directory with a log of the changing calls applied to it, in order. The
  client \<open>logClient failing\<close> appends each clone, fetch and reset to the log, also when
  the call fails, and fails the call named by \<open>failing\<close>: the clone and the fetch with
  cause 7, the reset with cause 9. Its \<open>listRemote\<close> fails with cause 128 on a directory
  whose remote has no URL.
\<close>

datatype op = OpClone | OpFetch | OpReset

definition logClient :: "op option \<Rightarrow> (dir \<times> op list, nat) client" where
  "logClient failing =
     \<lparr> existsSync = (\<lambda>p w. fst w \<noteq> NoDir),
       readdirSync = (\<lambda>p w. case fst w of NoDir \<Rightarrow> Inl 2 | Dir es u \<Rightarrow> Inr es),
       listRemote = (\<lambda>p args w. case fst w of NoDir \<Rightarrow> Inl 128
                       | Dir es u \<Rightarrow> if u = [] then Inl 128 else Inr (u @ [0x0A])),
       git = (\<lambda>p w. None),
       clone = (\<lambda>r p opts w.
                  if failing = Some OpClone then (Some 7, (fst w, snd w @ [OpClone]))
                  else (None, (Dir [lit ''.git''] r, snd w @ [OpClone]))),
       fetch = (\<lambda>p opts w.
                  (if failing = Some OpFetch then Some 7 else None, (fst w, snd w @ [OpFetch]))),
       reset = (\<lambda>p opts w.
                  (if failing = Some OpReset then Some 9 else None, (fst w, snd w @ [OpReset]))),
       raw = (\<lambda>p args w. Inr (lit ''main'' @ [0x0A])) \<rparr>"



section \<open>Trimming\<close>

lemma trimEnd_append_ws:
  "\<forall>x\<in>set b. isWhiteSpace x \<Longrightarrow> trimEnd (s @ b) = trimEnd s"
  using dropWhile_append2 [of "rev b" isWhiteSpace "rev s"] by (simp add: trimEnd_def)

lemma trimStart_append_ws:
  "\<forall>x\<in>set a. isWhiteSpace x \<Longrightarrow> trimStart (a @ s) = trimStart s"
  using dropWhile_append2 [of a isWhiteSpace s] by (simp add: trimStart_def)

lemma trim_append_ws:
  assumes "\<forall>x\<in>set b. isWhiteSpace x"
  shows "trim (s @ b) = trim s"
proof (cases "\<forall>x\<in>set s. isWhiteSpace x")
  case True
  with assms have "dropWhile isWhiteSpace (s @ b) = []" "dropWhile isWhiteSpace s = []"
    by (simp_all add: dropWhile_eq_Nil_conv)
  then show ?thesis by (simp only: trim_def trimStart_def)
next
  case False
  then have "dropWhile isWhiteSpace (s @ b) = dropWhile isWhiteSpace s @ b"
    by (auto simp: dropWhile_append1)
  then show ?thesis using assms by (simp add: trim_def trimStart_def trimEnd_append_ws)
qed

lemma trim_surrounding_ws:
  assumes "\<forall>x\<in>set a. isWhiteSpace x" and "\<forall>x\<in>set b. isWhiteSpace x"
  shows "trim (a @ s @ b) = trim s"
proof -
  have "trim (a @ s @ b) = trim ((a @ s) @ b)" by simp
  also have "\<dots> = trim (a @ s)" using assms(2) by (rule trim_append_ws)
  also have "\<dots> = trim s" using assms(1) by (simp add: trim_def trimStart_append_ws)
  finally show ?thesis .
qed

lemma trim_newline: "trim (s @ [0x0A]) = trim s"
  by (rule trim_append_ws) (simp add: isWhiteSpace_def)

section \<open>Properties of \<open>getRepo\<close>\<close>

lemmas getRepo_defs = getRepo_def missingOrEmpty_def isAlreadyCloned_def

text \<open>
  Claim C1. When the directory exists, has entries, and the trimmed URL of its remote
  differs from the trimmed \<open>remote\<close>, \<open>getRepo\<close> rejects with the error
  \<^verbatim>\<open>Can't clone to target destination: <cachePath>\<close> (the configuration conflict of the
  specification), after the three reading calls only: no clone, fetch or reset is made
  and the world is the one it started in.
\<close>

theorem getRepo_mismatched_remote:
  assumes "existsSync c p w" and "readdirSync c p w = Inr es" and "es \<noteq> []"
    and "listRemote c p [lit ''--get-url''] w = Inr s" and "trim s \<noteq> trim r"
  shows "getRepo c p r b w =
           (Inl (Error (lit ''Can't clone to target destination: '' @ p)),
            [(ExistsSync p, None), (ReaddirSync p, None),
             (ListRemote p [lit ''--get-url''], None)], w)
       \<and> mutations (fst (snd (getRepo c p r b w))) = []
       \<and> snd (snd (getRepo c p r b w)) = w"
  using assms by (simp add: getRepo_defs mutations_def)

theorem getRepo_mismatched_remote_witness:
  "existsSync (demoClient True) (lit ''/c'') (Dir [lit ''.git''] (lit ''a.git''))
   \<and> trim (lit ''a.git'' @ [0x0A]) \<noteq> trim (lit ''b.git'')
   \<and> getRepo (demoClient True) (lit ''/c'') (lit ''b.git'') None
       (Dir [lit ''.git''] (lit ''a.git'')) =
       (Inl (Error (lit ''Can't clone to target destination: /c'')),
        [(ExistsSync (lit ''/c''), None), (ReaddirSync (lit ''/c''), None),
         (ListRemote (lit ''/c'') [lit ''--get-url''], None)],
        Dir [lit ''.git''] (lit ''a.git''))"
proof -
  let ?w = "Dir [lit ''.git''] (lit ''a.git'')"
  have h1: "existsSync (demoClient True) (lit ''/c'') ?w"
    by (simp add: demoClient_def)
  have h2: "readdirSync (demoClient True) (lit ''/c'') ?w = Inr [lit ''.git'']"
    by (simp add: demoClient_def)
  have h3: "[lit ''.git''] \<noteq> []" by simp
  have h4: "listRemote (demoClient True) (lit ''/c'') [lit ''--get-url''] ?w
              = Inr (lit ''a.git'' @ [0x0A])"
    by (simp add: demoClient_def)
  have h5: "trim (lit ''a.git'' @ [0x0A]) \<noteq> trim (lit ''b.git'')"
    by (simp add: trim_newline)
       (simp add: trim_def trimStart_def trimEnd_def isWhiteSpace_def lit_def)
  show ?thesis
    using h1 h5 getRepo_mismatched_remote [OF h1 h2 h3 h4 h5, of None]
    by (simp add: lit_def)
qed


lemma demo_run_clone_fails:
  "getRepo (demoClient False) (localPath demoHost (lit ''docs'') (Some (lit ''/c'')))
      (lit ''a.git'') None (world \<lparr>world = NoDir, created = [], reported = []\<rparr>) =
     (Inl (Rejected 7),
      [(ExistsSync (lit ''/c''), None),
       (Clone (lit ''a.git'') (lit ''/c'') [lit ''--depth'', lit ''1''], Some 7)],
      NoDir)"
  by (simp add: getRepo_defs demoClient_def cloneOpts_def localPath_def Let_def lit_def)

text \<open>Runs with the logging client, used below.\<close>

lemma log_populated:
  "u \<noteq> [] \<Longrightarrow> populatedMatching (logClient f) (lit ''/c'') u (Dir [lit ''.git''] u, l)"
  by (simp add: populatedMatching_def logClient_def trim_newline)

lemma log_run_resync:
  "getRepo (logClient None) (lit ''/c'') (lit ''a.git'') (Some (lit ''dev''))
       (Dir [lit ''.git''] (lit ''a.git''), []) =
     (Inr (Repo (lit ''/c'')),
      [(ExistsSync (lit ''/c''), None), (ReaddirSync (lit ''/c''), None),
       (ListRemote (lit ''/c'') [lit ''--get-url''], None), (Git (lit ''/c''), None),
       (Fetch (lit ''/c'') [lit ''--depth'', lit ''1''], None),
       (Reset (lit ''/c'') [lit ''--hard'', lit ''origin/dev''], None)],
      (Dir [lit ''.git''] (lit ''a.git''), [OpFetch, OpReset]))"
  by (simp add: getRepo_defs logClient_def trim_newline getTargetBranch_def template_def)
     (simp add: lit_def)

lemma log_run_fetch_fails:
  "getRepo (logClient (Some OpFetch)) (lit ''/c'') (lit ''a.git'') (Some (lit ''dev''))
       (Dir [lit ''.git''] (lit ''a.git''), []) =
     (Inl (Rejected 7),
      [(ExistsSync (lit ''/c''), None), (ReaddirSync (lit ''/c''), None),
       (ListRemote (lit ''/c'') [lit ''--get-url''], None), (Git (lit ''/c''), None),
       (Fetch (lit ''/c'') [lit ''--depth'', lit ''1''], Some 7)],
      (Dir [lit ''.git''] (lit ''a.git''), [OpFetch]))"
  by (simp add: getRepo_defs logClient_def trim_newline) (simp add: lit_def)




text \<open>
  Claim C3. With no branch given, the re-synchronisation of a populated directory with
  the matching remote does not take its reset target from the checkout: the target is
  the text \<^verbatim>\<open>origin/undefined\<close>, and the calls made before the reset are the three
  reading calls, the construction of the handle and the fetch.
\<close>

theorem getRepo_absent_branch_resets_to_undefined:
  "getTargetBranch None = lit ''origin/undefined''
   \<and> getRepo (demoClient True) (lit ''/c'') (lit ''a.git'') None
       (Dir [lit ''.git''] (lit ''a.git'')) =
       (Inr (Repo (lit ''/c'')),
        [(ExistsSync (lit ''/c''), None), (ReaddirSync (lit ''/c''), None),
         (ListRemote (lit ''/c'') [lit ''--get-url''], None), (Git (lit ''/c''), None),
         (Fetch (lit ''/c'') [lit ''--depth'', lit ''1''], None),
         (Reset (lit ''/c'') [lit ''--hard'', lit ''origin/undefined''], None)],
        Dir [lit ''.git''] (lit ''a.git''))"
proof -
  have t: "getTargetBranch None = lit ''origin/undefined''"
    by (simp add: getTargetBranch_def template_def lit_def)
  have m: "trim (lit ''a.git'' @ [0x0A]) = trim (lit ''a.git'')"
    by (rule trim_newline)
  show ?thesis
    by (simp add: t) (simp add: getRepo_defs demoClient_def m t)
qed

text \<open>
  Claim C4. A directory that exists with no entries is treated as one that does not
  exist: in both cases the outcome and the world left are those of the one clone, which
  is the only changing call made; no fetch and no reset.
\<close>

theorem getRepo_empty_dir_as_absent:
  assumes "\<not> existsSync c p w \<or> readdirSync c p w = Inr []"
  shows "fst (getRepo c p r b w) =
           (case clone c r p (cloneOpts b) w of
              (Some e, w') \<Rightarrow> Inl (Rejected e)
            | (None, w') \<Rightarrow>
                (case git c p w' of Some e \<Rightarrow> Inl (Rejected e) | None \<Rightarrow> Inr (Repo p)))
       \<and> snd (snd (getRepo c p r b w)) = snd (clone c r p (cloneOpts b) w)
       \<and> mutations (fst (snd (getRepo c p r b w))) = [Clone r p (cloneOpts b)]"
  using assms
  by (auto simp: getRepo_defs mutations_def Let_def split: prod.splits option.splits)

theorem getRepo_empty_dir_as_absent_witness:
  "existsSync (demoClient True) (lit ''/c'') (Dir [] [])
   \<and> readdirSync (demoClient True) (lit ''/c'') (Dir [] []) = Inr []
   \<and> fst (getRepo (demoClient True) (lit ''/c'') (lit ''a.git'') None (Dir [] [])) =
       Inr (Repo (lit ''/c''))
   \<and> fst (getRepo (demoClient True) (lit ''/c'') (lit ''a.git'') None NoDir) =
       Inr (Repo (lit ''/c''))
   \<and> snd (snd (getRepo (demoClient True) (lit ''/c'') (lit ''a.git'') None (Dir [] []))) =
       snd (snd (getRepo (demoClient True) (lit ''/c'') (lit ''a.git'') None NoDir))
   \<and> mutations (fst (snd (getRepo (demoClient True) (lit ''/c'') (lit ''a.git'') None
        (Dir [] [])))) =
       [Clone (lit ''a.git'') (lit ''/c'') [lit ''--depth'', lit ''1'']]
   \<and> mutations (fst (snd (getRepo (demoClient True) (lit ''/c'') (lit ''a.git'') None NoDir))) =
       [Clone (lit ''a.git'') (lit ''/c'') [lit ''--depth'', lit ''1'']]"
proof -
  have e: "existsSync (demoClient True) (lit ''/c'') (Dir [] [])"
    and r: "readdirSync (demoClient True) (lit ''/c'') (Dir [] []) = Inr []"
    and a: "\<not> existsSync (demoClient True) (lit ''/c'') NoDir"
    by (simp_all add: demoClient_def)
  have c: "clone (demoClient True) (lit ''a.git'') (lit ''/c'') opts w
             = (None, Dir [lit ''.git''] (lit ''a.git''))" for opts w
    by (simp add: demoClient_def)
  have g: "git (demoClient True) (lit ''/c'') w = None" for w
    by (simp add: demoClient_def)
  have o: "cloneOpts None = [lit ''--depth'', lit ''1'']"
    by (simp add: cloneOpts_def)
  from r have h1: "\<not> existsSync (demoClient True) (lit ''/c'') (Dir [] [])
      \<or> readdirSync (demoClient True) (lit ''/c'') (Dir [] []) = Inr []" by (rule disjI2)
  from a have h2: "\<not> existsSync (demoClient True) (lit ''/c'') NoDir
      \<or> readdirSync (demoClient True) (lit ''/c'') NoDir = Inr []" by (rule disjI1)
  show ?thesis
    using e r getRepo_empty_dir_as_absent [OF h1, of "lit ''a.git''" None]
      getRepo_empty_dir_as_absent [OF h2, of "lit ''a.git''" None]
    by (simp add: c g o)
qed

text \<open>
  Claim C5. When the client prints the stored URL \<open>s\<close>, \<open>isAlreadyCloned\<close> answers
  whether \<open>trim s\<close> and \<open>trim r\<close> are the same sequence of code units (so letter case
  counts); white space around the URL, a final newline in particular, does not make the
  answer no.
\<close>

theorem isAlreadyCloned_iff_trim_eq:
  assumes "listRemote c repoPath [lit ''--get-url''] w = Inr s"
  shows "fst (isAlreadyCloned c r repoPath w) = Inr (trim s = trim r)
       \<and> ((\<exists>a b. (\<forall>x\<in>set a \<union> set b. isWhiteSpace x) \<and> s = a @ r @ b)
            \<longrightarrow> fst (isAlreadyCloned c r repoPath w) = Inr True)
       \<and> (s = r @ [0x0A] \<longrightarrow> fst (isAlreadyCloned c r repoPath w) = Inr True)"
proof -
  have main: "fst (isAlreadyCloned c r repoPath w) = Inr (trim s = trim r)"
    using assms by (simp add: isAlreadyCloned_def)
  have surround: "trim s = trim r"
    if "\<forall>x\<in>set a \<union> set b. isWhiteSpace x" and "s = a @ r @ b" for a b
    using that by (simp add: trim_surrounding_ws)
  show ?thesis using main surround trim_newline [of r] by auto
qed

theorem isAlreadyCloned_iff_trim_eq_witness:
  "listRemote (demoClient True) (lit ''/c'') [lit ''--get-url'']
       (Dir [lit ''.git''] (lit ''a.git''))
     = Inr (lit ''a.git'' @ [0x0A])
   \<and> fst (isAlreadyCloned (demoClient True) (lit ''a.git'') (lit ''/c'')
            (Dir [lit ''.git''] (lit ''a.git''))) = Inr True
   \<and> fst (isAlreadyCloned (demoClient True) (lit ''A.git'') (lit ''/c'')
            (Dir [lit ''.git''] (lit ''a.git''))) = Inr False"
proof -
  let ?w = "Dir [lit ''.git''] (lit ''a.git'')"
  have h: "listRemote (demoClient True) (lit ''/c'') [lit ''--get-url''] ?w
             = Inr (lit ''a.git'' @ [0x0A])"
    by (simp add: demoClient_def)
  have ne: "trim (lit ''a.git'' @ [0x0A]) \<noteq> trim (lit ''A.git'')"
    by (simp add: trim_newline)
       (simp add: trim_def trimStart_def trimEnd_def isWhiteSpace_def lit_def)
  have same: "fst (isAlreadyCloned (demoClient True) (lit ''a.git'') (lit ''/c'') ?w) = Inr True"
    using isAlreadyCloned_iff_trim_eq [OF h, of "lit ''a.git''"] by blast
  have other: "fst (isAlreadyCloned (demoClient True) (lit ''A.git'') (lit ''/c'') ?w) = Inr False"
    using ne isAlreadyCloned_iff_trim_eq [OF h, of "lit ''A.git''"] by simp
  show ?thesis using h same other by blast
qed

text \<open>
  Claim C6. When the directory does not exist or has no entries, \<open>getRepo\<close> applies the
  client's clone of \<open>remote\<close> into \<open>cachePath\<close> to the world it started in, with options
  that are \<^verbatim>\<open>--depth 1\<close> followed by \<^verbatim>\<open>--branch <branch>\<close> exactly when a branch is given
  (with no branch nothing follows, and the client clones the default branch of the
  remote): the world left and the outcome are those of that clone, and it is the one
  changing call recorded.
\<close>

theorem getRepo_clone_options:
  assumes "\<not> existsSync c p w \<or> readdirSync c p w = Inr []"
  shows "\<exists>opts. opts = [lit ''--depth'', lit ''1''] @
                    (case b of Some br \<Rightarrow> [lit ''--branch'', br] | None \<Rightarrow> [])
           \<and> snd (snd (getRepo c p r b w)) = snd (clone c r p opts w)
           \<and> fst (getRepo c p r b w) =
               (case clone c r p opts w of
                  (Some e, w') \<Rightarrow> Inl (Rejected e)
                | (None, w') \<Rightarrow>
                    (case git c p w' of Some e \<Rightarrow> Inl (Rejected e) | None \<Rightarrow> Inr (Repo p)))
           \<and> mutations (fst (snd (getRepo c p r b w))) = [Clone r p opts]
           \<and> take 2 opts = [lit ''--depth'', lit ''1'']
           \<and> drop 2 opts = (case b of Some br \<Rightarrow> [lit ''--branch'', br] | None \<Rightarrow> [])
           \<and> (lit ''--branch'' \<in> set opts \<longleftrightarrow> b \<noteq> None)"
proof -
  have d: "cloneOpts b = [lit ''--depth'', lit ''1''] @
             (case b of Some br \<Rightarrow> [lit ''--branch'', br] | None \<Rightarrow> [])"
    by (simp add: cloneOpts_def)
  have w: "snd (snd (getRepo c p r b w)) = snd (clone c r p (cloneOpts b) w)"
    and f: "fst (getRepo c p r b w) =
               (case clone c r p (cloneOpts b) w of
                  (Some e, w') \<Rightarrow> Inl (Rejected e)
                | (None, w') \<Rightarrow>
                    (case git c p w' of Some e \<Rightarrow> Inl (Rejected e) | None \<Rightarrow> Inr (Repo p)))"
    and m: "mutations (fst (snd (getRepo c p r b w))) = [Clone r p (cloneOpts b)]"
    using assms
    by (auto simp: getRepo_defs mutations_def Let_def split: prod.splits option.splits)
  have o: "take 2 (cloneOpts b) = [lit ''--depth'', lit ''1'']"
    "drop 2 (cloneOpts b) = (case b of Some br \<Rightarrow> [lit ''--branch'', br] | None \<Rightarrow> [])"
    "lit ''--branch'' \<in> set (cloneOpts b) \<longleftrightarrow> b \<noteq> None"
    by (cases b; simp add: cloneOpts_def lit_def)+
  show ?thesis
    by (intro exI [of _ "cloneOpts b"] conjI) (rule d w f m o)+
qed

theorem getRepo_clone_options_witness:
  "\<not> existsSync (logClient None) (lit ''/c'') (NoDir, [])
   \<and> snd (snd (getRepo (logClient None) (lit ''/c'') (lit ''a.git'') (Some (lit ''dev''))
        (NoDir, []))) =
       snd (clone (logClient None) (lit ''a.git'') (lit ''/c'')
              [lit ''--depth'', lit ''1'', lit ''--branch'', lit ''dev''] (NoDir, []))
   \<and> snd (snd (getRepo (logClient None) (lit ''/c'') (lit ''a.git'') (Some (lit ''dev''))
        (NoDir, []))) = (Dir [lit ''.git''] (lit ''a.git''), [OpClone])
   \<and> snd (snd (getRepo (logClient None) (lit ''/c'') (lit ''a.git'') None (NoDir, []))) =
       snd (clone (logClient None) (lit ''a.git'') (lit ''/c'')
              [lit ''--depth'', lit ''1''] (NoDir, []))
   \<and> mutations (fst (snd (getRepo (logClient None) (lit ''/c'') (lit ''a.git'') None
        (NoDir, [])))) =
       [Clone (lit ''a.git'') (lit ''/c'') [lit ''--depth'', lit ''1'']]"
proof -
  have a: "\<not> existsSync (logClient None) (lit ''/c'') (NoDir, [])"
    by (simp add: logClient_def)
  then have h: "\<not> existsSync (logClient None) (lit ''/c'') (NoDir, [])
      \<or> readdirSync (logClient None) (lit ''/c'') (NoDir, []) = Inr []" by (rule disjI1)
  have c: "snd (clone (logClient None) (lit ''a.git'') (lit ''/c'') opts (NoDir, [])) =
             (Dir [lit ''.git''] (lit ''a.git''), [OpClone])" for opts
    by (simp add: logClient_def)
  have o1: "[lit ''--depth'', lit ''1''] @
             (case Some (lit ''dev'') of Some br \<Rightarrow> [lit ''--branch'', br] | None \<Rightarrow> []) =
           [lit ''--depth'', lit ''1'', lit ''--branch'', lit ''dev'']"
    and o2: "[lit ''--depth'', lit ''1''] @
             (case None of Some br \<Rightarrow> [lit ''--branch'', br] | None \<Rightarrow> []) =
           [lit ''--depth'', lit ''1'']"
    by simp_all
  from getRepo_clone_options [OF h, where r = "lit ''a.git''" and b = "Some (lit ''dev'')"]
  obtain opts1 where
    "opts1 = [lit ''--depth'', lit ''1''] @
       (case Some (lit ''dev'') of Some br \<Rightarrow> [lit ''--branch'', br] | None \<Rightarrow> [])"
    and "snd (snd (getRepo (logClient None) (lit ''/c'') (lit ''a.git'') (Some (lit ''dev''))
           (NoDir, []))) =
         snd (clone (logClient None) (lit ''a.git'') (lit ''/c'') opts1 (NoDir, []))"
    by (elim exE conjE)
  then have 1: "snd (snd (getRepo (logClient None) (lit ''/c'') (lit ''a.git'') (Some (lit ''dev''))
        (NoDir, []))) =
       snd (clone (logClient None) (lit ''a.git'') (lit ''/c'')
              [lit ''--depth'', lit ''1'', lit ''--branch'', lit ''dev''] (NoDir, []))"
    by (simp only: o1)
  from getRepo_clone_options [OF h, where r = "lit ''a.git''" and b = None]
  obtain opts2 where
    "opts2 = [lit ''--depth'', lit ''1''] @
       (case None of Some br \<Rightarrow> [lit ''--branch'', br] | None \<Rightarrow> [])"
    and "snd (snd (getRepo (logClient None) (lit ''/c'') (lit ''a.git'') None (NoDir, []))) =
         snd (clone (logClient None) (lit ''a.git'') (lit ''/c'') opts2 (NoDir, []))"
    and "mutations (fst (snd (getRepo (logClient None) (lit ''/c'') (lit ''a.git'') None
           (NoDir, [])))) = [Clone (lit ''a.git'') (lit ''/c'') opts2]"
    by (elim exE conjE)
  then have 2: "snd (snd (getRepo (logClient None) (lit ''/c'') (lit ''a.git'') None (NoDir, []))) =
       snd (clone (logClient None) (lit ''a.git'') (lit ''/c'')
              [lit ''--depth'', lit ''1''] (NoDir, []))"
    and 3: "mutations (fst (snd (getRepo (logClient None) (lit ''/c'') (lit ''a.git'') None
        (NoDir, [])))) =
       [Clone (lit ''a.git'') (lit ''/c'') [lit ''--depth'', lit ''1'']]"
    by (simp_all only: o2)
  from a 1 2 3 c show ?thesis by simp
qed

text \<open>
  Claim C7. Whenever the call that \<open>getRepo\<close> makes to the client fails with a cause
  \<open>e\<close> (the clone on a missing or empty directory; the query of the remote URL on a
  populated one; the fetch on a populated directory with the matching remote; the reset
  after a fetch that succeeded), \<open>getRepo\<close> rejects with that cause, and the world it
  leaves is the one the failed call left: the call is applied once and nothing is
  applied after it. In every run a call recorded as failed is the last call made, and no
  call is made twice.
\<close>

theorem getRepo_failure_propagates:
  assumes run: "getRepo c p r b w = (res, t, w')"
  shows "(\<forall>e w1. (\<not> existsSync c p w \<or> readdirSync c p w = Inr [])
             \<and> clone c r p (cloneOpts b) w = (Some e, w1)
           \<longrightarrow> res = Inl (Rejected e) \<and> w' = w1 \<and> mutations t = [Clone r p (cloneOpts b)])
       \<and> (\<forall>e es. existsSync c p w \<and> readdirSync c p w = Inr es \<and> es \<noteq> []
             \<and> listRemote c p [lit ''--get-url''] w = Inl e
           \<longrightarrow> res = Inl (Rejected e) \<and> w' = w \<and> mutations t = [])
       \<and> (\<forall>e w1. populatedMatching c p r w \<and> git c p w = None
             \<and> fetch c p [lit ''--depth'', lit ''1''] w = (Some e, w1)
           \<longrightarrow> res = Inl (Rejected e) \<and> w' = w1
               \<and> mutations t = [Fetch p [lit ''--depth'', lit ''1'']])
       \<and> (\<forall>e w1 w2. populatedMatching c p r w \<and> git c p w = None
             \<and> fetch c p [lit ''--depth'', lit ''1''] w = (None, w1)
             \<and> reset c p [lit ''--hard'', getTargetBranch b] w1 = (Some e, w2)
           \<longrightarrow> res = Inl (Rejected e) \<and> w' = w2
               \<and> mutations t = [Fetch p [lit ''--depth'', lit ''1''],
                                 Reset p [lit ''--hard'', getTargetBranch b]])
       \<and> (\<forall>cl x. (cl, Some x) \<in> set t \<longrightarrow> res = Inl (Rejected x) \<and> last t = (cl, Some x))
       \<and> distinct (map fst t)"
proof -
  have clone_fails: "\<forall>e w1. (\<not> existsSync c p w \<or> readdirSync c p w = Inr [])
             \<and> clone c r p (cloneOpts b) w = (Some e, w1)
           \<longrightarrow> res = Inl (Rejected e) \<and> w' = w1 \<and> mutations t = [Clone r p (cloneOpts b)]"
    using run
    by (auto simp: getRepo_defs populatedMatching_def mutations_def Let_def
             split: prod.splits option.splits sum.splits if_splits bool.splits)
  have query_fails: "\<forall>e es. existsSync c p w \<and> readdirSync c p w = Inr es \<and> es \<noteq> []
             \<and> listRemote c p [lit ''--get-url''] w = Inl e
           \<longrightarrow> res = Inl (Rejected e) \<and> w' = w \<and> mutations t = []"
    using run
    by (auto simp: getRepo_defs populatedMatching_def mutations_def Let_def
             split: prod.splits option.splits sum.splits if_splits bool.splits)
  have fetch_fails: "\<forall>e w1. populatedMatching c p r w \<and> git c p w = None
             \<and> fetch c p [lit ''--depth'', lit ''1''] w = (Some e, w1)
           \<longrightarrow> res = Inl (Rejected e) \<and> w' = w1
               \<and> mutations t = [Fetch p [lit ''--depth'', lit ''1'']]"
    using run
    by (auto simp: getRepo_defs populatedMatching_def mutations_def Let_def
             split: prod.splits option.splits sum.splits if_splits bool.splits)
  have reset_fails: "\<forall>e w1 w2. populatedMatching c p r w \<and> git c p w = None
             \<and> fetch c p [lit ''--depth'', lit ''1''] w = (None, w1)
             \<and> reset c p [lit ''--hard'', getTargetBranch b] w1 = (Some e, w2)
           \<longrightarrow> res = Inl (Rejected e) \<and> w' = w2
               \<and> mutations t = [Fetch p [lit ''--depth'', lit ''1''],
                                 Reset p [lit ''--hard'', getTargetBranch b]]"
    using run
    by (auto simp: getRepo_defs populatedMatching_def mutations_def Let_def
             split: prod.splits option.splits sum.splits if_splits bool.splits)
  have recorded: "\<forall>cl x. (cl, Some x) \<in> set t
           \<longrightarrow> res = Inl (Rejected x) \<and> last t = (cl, Some x)"
    using run
    by (auto simp: getRepo_defs Let_def
             split: prod.splits option.splits sum.splits if_splits bool.splits)
  have once: "distinct (map fst t)"
    using run
    by (auto simp: getRepo_defs Let_def
             split: prod.splits option.splits sum.splits if_splits bool.splits)
  show ?thesis
    by (intro conjI) (fact clone_fails query_fails fetch_fails reset_fails recorded once)+
qed

theorem getRepo_failure_propagates_witness:
  "clone (logClient (Some OpClone)) (lit ''a.git'') (lit ''/c'') (cloneOpts (Some (lit ''dev'')))
       (NoDir, []) = (Some 7, (NoDir, [OpClone]))
   \<and> fst (getRepo (logClient (Some OpClone)) (lit ''/c'') (lit ''a.git'') (Some (lit ''dev''))
        (NoDir, [])) = Inl (Rejected 7)
   \<and> listRemote (logClient None) (lit ''/c'') [lit ''--get-url''] (Dir [lit ''.git''] [], []) =
       Inl 128
   \<and> fst (getRepo (logClient None) (lit ''/c'') (lit ''a.git'') (Some (lit ''dev''))
        (Dir [lit ''.git''] [], [])) = Inl (Rejected 128)
   \<and> fetch (logClient (Some OpFetch)) (lit ''/c'') [lit ''--depth'', lit ''1'']
        (Dir [lit ''.git''] (lit ''a.git''), []) =
       (Some 7, (Dir [lit ''.git''] (lit ''a.git''), [OpFetch]))
   \<and> getRepo (logClient (Some OpFetch)) (lit ''/c'') (lit ''a.git'') (Some (lit ''dev''))
        (Dir [lit ''.git''] (lit ''a.git''), []) =
       (Inl (Rejected 7),
        [(ExistsSync (lit ''/c''), None), (ReaddirSync (lit ''/c''), None),
         (ListRemote (lit ''/c'') [lit ''--get-url''], None), (Git (lit ''/c''), None),
         (Fetch (lit ''/c'') [lit ''--depth'', lit ''1''], Some 7)],
        (Dir [lit ''.git''] (lit ''a.git''), [OpFetch]))
   \<and> reset (logClient (Some OpReset)) (lit ''/c'')
        [lit ''--hard'', getTargetBranch (Some (lit ''dev''))]
        (Dir [lit ''.git''] (lit ''a.git''), [OpFetch]) =
       (Some 9, (Dir [lit ''.git''] (lit ''a.git''), [OpFetch, OpReset]))
   \<and> fst (getRepo (logClient (Some OpReset)) (lit ''/c'') (lit ''a.git'') (Some (lit ''dev''))
        (Dir [lit ''.git''] (lit ''a.git''), [])) = Inl (Rejected 9)"
proof -
  let ?d = "Dir [lit ''.git''] (lit ''a.git'')"
  have ne: "lit ''a.git'' \<noteq> []" by (simp add: lit_def)
  have pm: "populatedMatching (logClient f) (lit ''/c'') (lit ''a.git'') (?d, [])" for f
    using ne by (rule log_populated)
  have g: "git (logClient f) (lit ''/c'') w = None" for f w
    by (simp add: logClient_def)
  have a: "\<not> existsSync (logClient (Some OpClone)) (lit ''/c'') (NoDir, [])"
    by (simp add: logClient_def)
  have c: "clone (logClient (Some OpClone)) (lit ''a.git'') (lit ''/c'')
             (cloneOpts (Some (lit ''dev''))) (NoDir, []) = (Some 7, (NoDir, [OpClone]))"
    by (simp add: logClient_def)
  have e: "existsSync (logClient None) (lit ''/c'') (Dir [lit ''.git''] [], [])"
    and r: "readdirSync (logClient None) (lit ''/c'') (Dir [lit ''.git''] [], []) = Inr [lit ''.git'']"
    and q: "listRemote (logClient None) (lit ''/c'') [lit ''--get-url'']
              (Dir [lit ''.git''] [], []) = Inl 128"
    by (simp_all add: logClient_def)
  have n: "[lit ''.git''] \<noteq> []" by simp
  have f: "fetch (logClient (Some OpFetch)) (lit ''/c'') [lit ''--depth'', lit ''1''] (?d, []) =
             (Some 7, (?d, [OpFetch]))"
    by (simp add: logClient_def)
  have f': "fetch (logClient (Some OpReset)) (lit ''/c'') [lit ''--depth'', lit ''1''] (?d, []) =
             (None, (?d, [OpFetch]))"
    by (simp add: logClient_def)
  have s: "reset (logClient (Some OpReset)) (lit ''/c'')
             [lit ''--hard'', getTargetBranch (Some (lit ''dev''))] (?d, [OpFetch]) =
           (Some 9, (?d, [OpFetch, OpReset]))"
    by (simp add: logClient_def)
  let ?run = "\<lambda>f v. getRepo (logClient f) (lit ''/c'') (lit ''a.git'') (Some (lit ''dev'')) v"
  have split: "?run f v = (fst (?run f v), fst (snd (?run f v)), snd (snd (?run f v)))" for f v
    by simp
  note clone_case = getRepo_failure_propagates [OF split, THEN conjunct1, rule_format]
  note query_case =
    getRepo_failure_propagates [OF split, THEN conjunct2, THEN conjunct1, rule_format]
  note fetch_case =
    getRepo_failure_propagates
      [OF split, THEN conjunct2, THEN conjunct2, THEN conjunct1, rule_format]
  note reset_case =
    getRepo_failure_propagates
      [OF split, THEN conjunct2, THEN conjunct2, THEN conjunct2, THEN conjunct1, rule_format]
  have 1: "fst (?run (Some OpClone) (NoDir, [])) = Inl (Rejected 7)"
    using clone_case [of "Some OpClone" "(NoDir, [])" 7 "(NoDir, [OpClone])"] a c by blast
  have 2: "fst (?run None (Dir [lit ''.git''] [], [])) = Inl (Rejected 128)"
    using query_case [of None "(Dir [lit ''.git''] [], [])" "[lit ''.git'']" 128] e r n q
    by blast
  have 3: "fst (?run (Some OpFetch) (?d, [])) = Inl (Rejected 7)"
    using fetch_case [of "Some OpFetch" "(?d, [])" 7 "(?d, [OpFetch])"] pm g f by blast
  have 4: "fst (?run (Some OpReset) (?d, [])) = Inl (Rejected 9)"
    using reset_case [of "Some OpReset" "(?d, [])" "(?d, [OpFetch])" 9 "(?d, [OpFetch, OpReset])"]
      pm g f' s by blast
  from 1 2 3 4 c q f s log_run_fetch_fails show ?thesis by simp
qed

text \<open>What a run of \<open>getRepo\<close> records and what it applies, fact by fact.\<close>

lemma run_nonempty:
  assumes "getRepo c p r b w = (res, t, w')"
  shows "t \<noteq> []"
  using assms
    by (auto simp: getRepo_defs Let_def
             split: prod.splits option.splits sum.splits if_splits bool.splits)

lemma run_first:
  assumes "getRepo c p r b w = (res, t, w')"
  shows "hd t = (ExistsSync p, None)"
  using assms
    by (auto simp: getRepo_defs Let_def
             split: prod.splits option.splits sum.splits if_splits bool.splits)

lemma run_detect:
  assumes "getRepo c p r b w = (res, t, w')"
  shows "\<forall>x\<in>set (dropWhile (\<lambda>x. \<not> isMutating (fst x)) t). \<not> isDetection (fst x)"
  using assms
    by (auto simp: getRepo_defs Let_def
             split: prod.splits option.splits sum.splits if_splits bool.splits)

lemma run_after:
  assumes "getRepo c p r b w = (res, t, w')"
  shows "\<forall>p' o' x. (Reset p' o', x) \<in> set t \<longrightarrow>
            (\<exists>fo. mutations t = [Fetch p' fo, Reset p' o'] \<and> (Fetch p' fo, None) \<in> set t)"
  using assms
    by (auto simp: getRepo_defs mutations_def Let_def
             split: prod.splits option.splits sum.splits if_splits bool.splits)

lemma run_reset_tied:
  assumes "getRepo c p r b w = (res, t, w')"
  shows "\<forall>p' o' x. (Reset p' o', x) \<in> set t \<longrightarrow>
            populatedMatching c p r w
            \<and> (\<exists>w1. fetch c p' [lit ''--depth'', lit ''1''] w = (None, w1)
                   \<and> reset c p' o' w1 = (x, w'))"
  using assms
    by (auto simp: getRepo_defs populatedMatching_def Let_def
             split: prod.splits option.splits sum.splits if_splits bool.splits)

lemma run_fetch_tied:
  assumes "getRepo c p r b w = (res, t, w')"
  shows "\<forall>p' o' x. (Fetch p' o', x) \<in> set t \<longrightarrow>
            populatedMatching c p r w \<and> fst (fetch c p' o' w) = x
            \<and> (x \<noteq> None \<longrightarrow> w' = snd (fetch c p' o' w))"
  using assms
    by (auto simp: getRepo_defs populatedMatching_def Let_def
             split: prod.splits option.splits sum.splits if_splits bool.splits)

lemma run_clone_tied:
  assumes "getRepo c p r b w = (res, t, w')"
  shows "\<forall>r' p' o' x. (Clone r' p' o', x) \<in> set t \<longrightarrow>
            (\<not> existsSync c p w \<or> readdirSync c p w = Inr []) \<and> clone c r' p' o' w = (x, w')"
  using assms
    by (auto simp: getRepo_defs Let_def
             split: prod.splits option.splits sum.splits if_splits bool.splits)

lemma run_quiet:
  assumes "getRepo c p r b w = (res, t, w')"
  shows "mutations t = [] \<longrightarrow> w' = w"
  using assms
    by (auto simp: getRepo_defs mutations_def Let_def
             split: prod.splits option.splits sum.splits if_splits bool.splits)

lemma run_untouched:
  assumes "getRepo c p r b w = (res, t, w')"
  shows "existsSync c p w \<and> readdirSync c p w \<noteq> Inr [] \<and> \<not> populatedMatching c p r w
            \<longrightarrow> w' = w \<and> (\<forall>h. res \<noteq> Inr h)"
  using assms
    by (auto simp: getRepo_defs populatedMatching_def Let_def
             split: prod.splits option.splits sum.splits if_splits bool.splits)

lemma run_resync:
  assumes "getRepo c p r b w = (res, t, w')"
  shows "populatedMatching c p r w \<and> git c p w = None \<longrightarrow>
            (case fetch c p [lit ''--depth'', lit ''1''] w of
               (Some e, w1) \<Rightarrow> res = Inl (Rejected e) \<and> w' = w1
             | (None, w1) \<Rightarrow>
                 (case reset c p [lit ''--hard'', getTargetBranch b] w1 of
                    (Some e, w2) \<Rightarrow> res = Inl (Rejected e) \<and> w' = w2
                  | (None, w2) \<Rightarrow> res = Inr (Repo p) \<and> w' = w2))"
  using assms
    by (auto simp: getRepo_defs populatedMatching_def Let_def
             split: prod.splits option.splits sum.splits if_splits bool.splits)

lemma run_success:
  assumes "getRepo c p r b w = (res, t, w')"
  shows "\<forall>h. res = Inr h \<and> existsSync c p w \<and> readdirSync c p w \<noteq> Inr [] \<longrightarrow>
            populatedMatching c p r w
            \<and> (\<exists>w1. fetch c p [lit ''--depth'', lit ''1''] w = (None, w1)
                   \<and> reset c p [lit ''--hard'', getTargetBranch b] w1 = (None, w'))"
  using assms
    by (auto simp: getRepo_defs populatedMatching_def Let_def
             split: prod.splits option.splits sum.splits if_splits bool.splits)

text \<open>
  Claim C8. The state detection reads the world \<open>getRepo\<close> starts in, and what it finds
  there decides what is applied to that world. On a directory that exists with entries
  but is not found populated with the matching remote, nothing is applied. On one found
  so, the fetch is applied to the starting world, and the reset is applied, to the world
  the fetch left, only when the fetch succeeded; a handle is returned only when both
  succeeded, in that order. In the record of the calls the existence check is first, no
  reading call of the detection follows a changing call, and a recorded reset is the
  client's reset applied to the world left by the client's successful fetch.
\<close>

theorem getRepo_ordering:
  assumes "getRepo c p r b w = (res, t, w')"
  shows "t \<noteq> [] \<and> hd t = (ExistsSync p, None)
       \<and> (\<forall>x\<in>set (dropWhile (\<lambda>x. \<not> isMutating (fst x)) t). \<not> isDetection (fst x))
       \<and> (\<forall>p' o' x. (Reset p' o', x) \<in> set t \<longrightarrow>
            (\<exists>fo. mutations t = [Fetch p' fo, Reset p' o'] \<and> (Fetch p' fo, None) \<in> set t))
       \<and> (\<forall>p' o' x. (Reset p' o', x) \<in> set t \<longrightarrow>
            populatedMatching c p r w
            \<and> (\<exists>w1. fetch c p' [lit ''--depth'', lit ''1''] w = (None, w1)
                   \<and> reset c p' o' w1 = (x, w')))
       \<and> (\<forall>p' o' x. (Fetch p' o', x) \<in> set t \<longrightarrow>
            populatedMatching c p r w \<and> fst (fetch c p' o' w) = x
            \<and> (x \<noteq> None \<longrightarrow> w' = snd (fetch c p' o' w)))
       \<and> (\<forall>r' p' o' x. (Clone r' p' o', x) \<in> set t \<longrightarrow>
            (\<not> existsSync c p w \<or> readdirSync c p w = Inr []) \<and> clone c r' p' o' w = (x, w'))
       \<and> (mutations t = [] \<longrightarrow> w' = w)
       \<and> (existsSync c p w \<and> readdirSync c p w \<noteq> Inr [] \<and> \<not> populatedMatching c p r w
            \<longrightarrow> w' = w \<and> (\<forall>h. res \<noteq> Inr h))
       \<and> (populatedMatching c p r w \<and> git c p w = None \<longrightarrow>
            (case fetch c p [lit ''--depth'', lit ''1''] w of
               (Some e, w1) \<Rightarrow> res = Inl (Rejected e) \<and> w' = w1
             | (None, w1) \<Rightarrow>
                 (case reset c p [lit ''--hard'', getTargetBranch b] w1 of
                    (Some e, w2) \<Rightarrow> res = Inl (Rejected e) \<and> w' = w2
                  | (None, w2) \<Rightarrow> res = Inr (Repo p) \<and> w' = w2)))
       \<and> (\<forall>h. res = Inr h \<and> existsSync c p w \<and> readdirSync c p w \<noteq> Inr [] \<longrightarrow>
            populatedMatching c p r w
            \<and> (\<exists>w1. fetch c p [lit ''--depth'', lit ''1''] w = (None, w1)
                   \<and> reset c p [lit ''--hard'', getTargetBranch b] w1 = (None, w')))"
proof -
  note facts =
    run_nonempty [OF assms]
    run_first [OF assms]
    run_detect [OF assms]
    run_after [OF assms]
    run_reset_tied [OF assms]
    run_fetch_tied [OF assms]
    run_clone_tied [OF assms]
    run_quiet [OF assms]
    run_untouched [OF assms]
    run_resync [OF assms]
    run_success [OF assms]
  show ?thesis by (intro conjI) (rule facts)+
qed

theorem getRepo_ordering_witness:
  "getRepo (logClient None) (lit ''/c'') (lit ''a.git'') (Some (lit ''dev''))
       (Dir [lit ''.git''] (lit ''a.git''), []) =
     (Inr (Repo (lit ''/c'')),
      [(ExistsSync (lit ''/c''), None), (ReaddirSync (lit ''/c''), None),
       (ListRemote (lit ''/c'') [lit ''--get-url''], None), (Git (lit ''/c''), None),
       (Fetch (lit ''/c'') [lit ''--depth'', lit ''1''], None),
       (Reset (lit ''/c'') [lit ''--hard'', lit ''origin/dev''], None)],
      (Dir [lit ''.git''] (lit ''a.git''), [OpFetch, OpReset]))
   \<and> fetch (logClient None) (lit ''/c'') [lit ''--depth'', lit ''1'']
        (Dir [lit ''.git''] (lit ''a.git''), []) =
       (None, (Dir [lit ''.git''] (lit ''a.git''), [OpFetch]))
   \<and> reset (logClient None) (lit ''/c'') [lit ''--hard'', getTargetBranch (Some (lit ''dev''))]
        (Dir [lit ''.git''] (lit ''a.git''), [OpFetch]) =
       (None, (Dir [lit ''.git''] (lit ''a.git''), [OpFetch, OpReset]))
   \<and> getRepo (logClient (Some OpFetch)) (lit ''/c'') (lit ''a.git'') (Some (lit ''dev''))
       (Dir [lit ''.git''] (lit ''a.git''), []) =
     (Inl (Rejected 7),
      [(ExistsSync (lit ''/c''), None), (ReaddirSync (lit ''/c''), None),
       (ListRemote (lit ''/c'') [lit ''--get-url''], None), (Git (lit ''/c''), None),
       (Fetch (lit ''/c'') [lit ''--depth'', lit ''1''], Some 7)],
      (Dir [lit ''.git''] (lit ''a.git''), [OpFetch]))
   \<and> snd (fetch (logClient (Some OpFetch)) (lit ''/c'') [lit ''--depth'', lit ''1'']
        (Dir [lit ''.git''] (lit ''a.git''), [])) =
       (Dir [lit ''.git''] (lit ''a.git''), [OpFetch])"
proof -
  let ?d = "Dir [lit ''.git''] (lit ''a.git'')"
  have e: "existsSync (logClient None) (lit ''/c'') (?d, [])"
    and r: "readdirSync (logClient None) (lit ''/c'') (?d, []) \<noteq> Inr []"
    by (simp_all add: logClient_def)
  have f: "fetch (logClient None) (lit ''/c'') [lit ''--depth'', lit ''1''] (?d, []) = (None, w1)
             \<Longrightarrow> w1 = (?d, [OpFetch])" for w1
    by (auto simp: logClient_def)
  note success =
    getRepo_ordering
      [OF log_run_resync, THEN conjunct2, THEN conjunct2, THEN conjunct2, THEN conjunct2,
       THEN conjunct2, THEN conjunct2, THEN conjunct2, THEN conjunct2, THEN conjunct2,
       THEN conjunct2, rule_format, of "Repo (lit ''/c'')"]
  from success e r
  obtain w1 where
    1: "fetch (logClient None) (lit ''/c'') [lit ''--depth'', lit ''1''] (?d, []) = (None, w1)"
    and 2: "reset (logClient None) (lit ''/c'')
              [lit ''--hard'', getTargetBranch (Some (lit ''dev''))] w1 =
            (None, (?d, [OpFetch, OpReset]))"
    by blast
  from 1 have w1: "w1 = (?d, [OpFetch])" by (rule f)
  note fetch_tied =
    getRepo_ordering
      [OF log_run_fetch_fails, THEN conjunct2, THEN conjunct2, THEN conjunct2, THEN conjunct2,
       THEN conjunct2, THEN conjunct1, rule_format,
       of "lit ''/c''" "[lit ''--depth'', lit ''1'']" "Some 7"]
  have 3: "(?d, [OpFetch]) =
      snd (fetch (logClient (Some OpFetch)) (lit ''/c'') [lit ''--depth'', lit ''1''] (?d, []))"
    using fetch_tied by simp
  from log_run_resync log_run_fetch_fails 1 2 3 w1 show ?thesis by simp
qed

section \<open>Properties of \<open>sourceNodes\<close>\<close>

text \<open>
  Claim C10. When the remote URL parses and \<open>getRepo\<close> rejects, \<open>sourceNodes\<close> resolves:
  it hands the text of the failure to \<^verbatim>\<open>reporter.error\<close> and creates no node, neither
  the node of the remote nor a file node.
\<close>

theorem sourceNodes_getRepo_failure:
  assumes "gitUrlParse h remote = Inr u"
    and "getRepo c (localPath h name local) remote branch (world st) = (Inl f, t, w')"
  shows "sourceNodes h c name remote branch patterns local st =
           (Inr (), st\<lparr>world := w', reported := reported st @ [failureText h f]\<rparr>)
       \<and> created (snd (sourceNodes h c name remote branch patterns local st)) = created st"
  using assms by (simp add: sourceNodes_def Let_def)

theorem sourceNodes_getRepo_failure_witness:
  "gitUrlParse demoHost (lit ''a.git'') = Inr (lit ''a.git'')
   \<and> sourceNodes demoHost (demoClient False) (lit ''docs'') (lit ''a.git'') None None
       (Some (lit ''/c'')) \<lparr>world = NoDir, created = [], reported = []\<rparr> =
      (Inr (), \<lparr>world = NoDir, created = [], reported = [lit ''GitError'']\<rparr>)"
proof -
  have p: "gitUrlParse demoHost (lit ''a.git'') = Inr (lit ''a.git'')"
    by (simp add: demoHost_def)
  have f: "failureText demoHost (Rejected 7) = lit ''GitError''"
    by (simp add: failureText_def demoHost_def)
  from sourceNodes_getRepo_failure [OF p demo_run_clone_fails, of None] p f
  show ?thesis by simp
qed

end
